theory Spec2Isabelle
  imports Main
begin

section \<open>The plan store and the plan snapshot (imported from \<^verbatim>\<open>~/context/plan\<close>)\<close>

text \<open>
  Modelled from the spec: the declaration of \<^verbatim>\<open>EnumPlanState\<close> / \<^verbatim>\<open>PlanState\<close> is not
  part of \<^verbatim>\<open>ActivePlan.tsx\<close>. The members are the lifecycle states the specification lists;
  \<open>Unknown u\<close> stands for any value outside the named members.
\<close>

datatype PlanState =
  Idle | Applying | Cancelling | Cancelled | Finished | Failed | Unknown string

text \<open>
  Modelled from the spec: \<^verbatim>\<open>EnumPlanAction\<close> with the members \<^verbatim>\<open>None\<close> and
  \<^verbatim>\<open>Cancelling\<close>. The constructors carry the prefix \<open>Action\<close> because \<open>None\<close> and
  \<open>Cancelling\<close> are taken.
\<close>

datatype PlanAction = ActionNone | ActionCancelling

text \<open>Modelled from the spec: \<^verbatim>\<open>EnumPlanApplyType\<close>, the kind of update of a plan.\<close>

datatype PlanApplyType = Virtual | Backfill

text \<open>
  Modelled from the spec: \<^verbatim>\<open>PlanProgress\<close>, the snapshot of the active plan: its update
  kind, the time of its last update and its tasks. The component only reads it.
\<close>

record 'task PlanProgress =
  type :: PlanApplyType
  updated_at :: string
  tasks :: "'task list"

text \<open>
  Modelled from the spec: the shared store behind \<^verbatim>\<open>useStorePlan\<close>, holding the lifecycle
  state and the action flag, with its two setters.
\<close>

record plan_store =
  state :: PlanState
  action :: PlanAction

definition setState :: "PlanState \<Rightarrow> plan_store \<Rightarrow> plan_store" where
  "setState v s = s\<lparr>state := v\<rparr>"

definition setAction :: "PlanAction \<Rightarrow> plan_store \<Rightarrow> plan_store" where
  "setAction v s = s\<lparr>action := v\<rparr>"


section \<open>The world a handler of the component runs in\<close>

text \<open>
  Everything \<^verbatim>\<open>cancel\<close> and its continuation can touch: the shared store, the diagnostic
  console (the values passed to \<^verbatim>\<open>console.error\<close>, oldest first), the number of
  cancellation requests sent so far, and the number of those still in flight.
\<close>

record world =
  store :: plan_store
  console :: "string list"
  requests :: nat
  pending :: nat

text \<open>\<^verbatim>\<open>setPlanState\<close> and \<^verbatim>\<open>setPlanAction\<close>: the setters selected from the store (lines 29-30).\<close>

definition setPlanState :: "PlanState \<Rightarrow> world \<Rightarrow> world" where
  "setPlanState v w = w\<lparr>store := setState v (store w)\<rparr>"

definition setPlanAction :: "PlanAction \<Rightarrow> world \<Rightarrow> world" where
  "setPlanAction v w = w\<lparr>store := setAction v (store w)\<rparr>"

text \<open>
  Modelled from the spec: \<^verbatim>\<open>apiCancelPlanApply(client)\<close> from \<^verbatim>\<open>~/api\<close> sends one
  cancellation request and returns its promise at once; the request stays in flight until
  the promise settles. It takes no plan identifier and changes nothing else.
\<close>

definition apiCancelPlanApply :: "world \<Rightarrow> world" where
  "apiCancelPlanApply w = w\<lparr>requests := requests w + 1, pending := pending w + 1\<rparr>"

text \<open>How the promise of a request settles: it resolves, or it rejects with a reason.\<close>

datatype outcome = Resolved | Rejected string

text \<open>
  How a call of a handler completes: it returns, or it throws. The setters of the store
  and the call that sends the request return; they are the statements of the handler
  bodies below, which are therefore plain changes of the world.
\<close>

datatype completion = Normal | Throw string

text \<open>\<^verbatim>\<open>console.error\<close>: appends its argument to the console and returns.\<close>

definition console_error :: "string \<Rightarrow> world \<Rightarrow> completion \<times> world" where
  "console_error e w = (Normal, w\<lparr>console := console w @ [e]\<rparr>)"

text \<open>
  \<^verbatim>\<open>p.catch(h)\<close>: a resolved \<open>p\<close> passes through and the handler does not run; a
  rejected \<open>p\<close> runs the handler on the reason, and the promise that \<^verbatim>\<open>catch\<close> returns
  is resolved when the handler returns and rejected with what the handler throws. The
  result pairs the settlement of the returned promise with the world after the handler.
\<close>

fun promise_catch ::
  "(string \<Rightarrow> world \<Rightarrow> completion \<times> world) \<Rightarrow> outcome \<Rightarrow> world \<Rightarrow> outcome \<times> world"
where
  "promise_catch h Resolved w = (Resolved, w)"
| "promise_catch h (Rejected e) w =
     (case h e w of
        (Normal, w') \<Rightarrow> (Resolved, w')
      | (Throw e', w') \<Rightarrow> (Rejected e', w'))"

text \<open>
  \<^verbatim>\<open>p.finally(f)\<close>: the callback runs however \<open>p\<close> settled; the returned promise settles
  as \<open>p\<close> did when the callback returns, and is rejected with what the callback throws.
\<close>

fun promise_finally ::
  "(world \<Rightarrow> completion \<times> world) \<Rightarrow> outcome \<Rightarrow> world \<Rightarrow> outcome \<times> world"
where
  "promise_finally f r w =
     (case f w of
        (Normal, w') \<Rightarrow> (r, w')
      | (Throw e', w') \<Rightarrow> (Rejected e', w'))"


section \<open>\<^verbatim>\<open>cancel\<close> (lines 32-42)\<close>

text \<open>
  A handler body is the list of its statements in source order, each a change of the
  world. \<open>run\<close> executes a body; \<open>points\<close> lists the world after each statement, so
  the last point is what \<open>run\<close> returns.
\<close>

type_synonym body = "(world \<Rightarrow> world) list"

fun run :: "body \<Rightarrow> world \<Rightarrow> world" where
  "run [] w = w"
| "run (f # fs) w = run fs (f w)"

fun points :: "body \<Rightarrow> world \<Rightarrow> world list" where
  "points [] w = []"
| "points (f # fs) w = f w # points fs (f w)"

text \<open>
  The synchronous part of \<^verbatim>\<open>cancel\<close>: lines 33, 34 and the call on line 36, which
  returns the promise the continuation is attached to. It tests nothing before it writes.
\<close>

definition cancel_body :: body where
  "cancel_body =
     [setPlanState Cancelling, setPlanAction ActionCancelling, apiCancelPlanApply]"

definition cancel :: "world \<Rightarrow> world" where
  "cancel w = run cancel_body w"

text \<open>The callback given to \<^verbatim>\<open>finally\<close>: lines 39 and 40, the action first.\<close>

definition finally_body :: body where
  "finally_body = [setPlanAction ActionNone, setPlanState Cancelled]"

definition finally_callback :: "world \<Rightarrow> completion \<times> world" where
  "finally_callback w = (Normal, run finally_body w)"

text \<open>
  The continuation \<^verbatim>\<open>.catch(console.error).finally(...)\<close> of lines 37-41, run when the
  request's promise settles with \<open>r\<close>. The first component is the settlement of the
  promise at the end of the chain, which nobody handles: were it \<open>Rejected\<close>, the
  rejection would escape.
\<close>

definition on_settled :: "outcome \<Rightarrow> world \<Rightarrow> outcome \<times> world" where
  "on_settled r w =
     (case promise_catch console_error r w of
        (r', w') \<Rightarrow> promise_finally finally_callback r' w')"

text \<open>
  The event loop delivers the settlement of one request in flight: the request leaves
  the set of pending ones and the continuation runs. With nothing in flight there is
  nothing to deliver.
\<close>

definition settle :: "outcome \<Rightarrow> world \<Rightarrow> world" where
  "settle r w =
     (if pending w = 0 then w
      else snd (on_settled r (w\<lparr>pending := pending w - 1\<rparr>)))"

text \<open>The worlds \<open>settle\<close> passes through, one after each statement it executes.\<close>

definition settle_points :: "outcome \<Rightarrow> world \<Rightarrow> world list" where
  "settle_points r w =
     (if pending w = 0 then []
      else
        (case r of
           Resolved \<Rightarrow> points finally_body (w\<lparr>pending := pending w - 1\<rparr>)
         | Rejected e \<Rightarrow>
             snd (console_error e (w\<lparr>pending := pending w - 1\<rparr>)) #
             points finally_body (snd (console_error e (w\<lparr>pending := pending w - 1\<rparr>)))))"

text \<open>
  What happens to the component over time: \<^verbatim>\<open>cancel\<close> is called, or a request in flight
  settles. \<open>produced\<close> lists every world the component's statements produce along a
  sequence of such events.
\<close>

datatype event = CancelCalled | Settled outcome

fun event_step :: "event \<Rightarrow> world \<Rightarrow> world" where
  "event_step CancelCalled w = cancel w"
| "event_step (Settled r) w = settle r w"

fun event_points :: "event \<Rightarrow> world \<Rightarrow> world list" where
  "event_points CancelCalled w = points cancel_body w"
| "event_points (Settled r) w = settle_points r w"

fun produced :: "event list \<Rightarrow> world \<Rightarrow> world list" where
  "produced [] w = []"
| "produced (e # es) w = event_points e w @ produced es (event_step e w)"

text \<open>No desynchronisation: an action flag of \<open>Cancelling\<close> comes with a state of \<open>Cancelling\<close>.\<close>

definition in_sync :: "world \<Rightarrow> bool" where
  "in_sync w = (action (store w) = ActionCancelling \<longrightarrow> state (store w) = Cancelling)"


section \<open>The rendered component (lines 44-117)\<close>

text \<open>\<^verbatim>\<open>getTriggerBgColor\<close> (lines 119-125): the first test that matches decides.\<close>

definition getTriggerBgColor :: "PlanState \<Rightarrow> string" where
  "getTriggerBgColor planState =
     (if planState = Finished then ''bg-success-500 text-light''
      else if planState = Failed then ''bg-danger-500 text-light''
      else if planState = Applying then ''bg-secondary-500 text-light''
      else ''bg-neutral-100 text-neutral-500'')"

text \<open>\<^verbatim>\<open>clsx\<close> on non-empty class names: joins them with single spaces.\<close>

fun clsx :: "string list \<Rightarrow> string" where
  "clsx [] = []"
| "clsx [c] = c"
| "clsx (c # cs) = c @ '' '' @ clsx cs"

text \<open>
  Reading a property of \<^verbatim>\<open>null\<close> or \<^verbatim>\<open>undefined\<close> raises a \<^verbatim>\<open>TypeError\<close> in
  JavaScript. An absent plan prop is \<open>None\<close>.
\<close>

datatype js_error = TypeError

text \<open>The child of the trigger, line 54: \<^verbatim>\<open>plan == null ? 0 : 1\<close>.\<close>

definition trigger_count :: "'task PlanProgress option \<Rightarrow> nat" where
  "trigger_count plan = (if plan = None then 0 else 1)"

text \<open>
  What \<^verbatim>\<open>TasksOverview\<close> hands to its children function (line 68), and the props the
  children function builds from it for \<^verbatim>\<open>TasksOverview.Summary\<close> (lines 70-82) and
  \<^verbatim>\<open>TasksOverview.Details\<close> (lines 83-90).
\<close>

record 'm overview =
  total :: nat
  completed :: nat
  models :: 'm

record SummaryProps =
  environment :: string
  planState :: PlanState
  headline :: string
  summary_completed :: nat
  summary_total :: nat
  updateType :: string
  updatedAt :: string

record 'm DetailsProps =
  details_models :: 'm
  showBatches :: bool
  showVirtualUpdate :: bool
  showProgress :: bool

definition overview_children ::
  "string \<Rightarrow> PlanState \<Rightarrow> 'task PlanProgress \<Rightarrow> 'm overview \<Rightarrow> SummaryProps \<times> 'm DetailsProps"
where
  "overview_children environment_name st plan ov =
     (\<lparr>environment = environment_name,
       planState = st,
       headline = ''Most Recent Plan'',
       summary_completed = completed ov,
       summary_total = total ov,
       updateType = (if type plan = Virtual then ''Virtual'' else ''Backfill''),
       updatedAt = updated_at plan\<rparr>,
      \<lparr>details_models = models ov,
       showBatches = (type plan \<noteq> Virtual),
       showVirtualUpdate = (type plan = Virtual),
       showProgress = True\<rparr>)"

text \<open>
  The props of the Cancel button (lines 96-107). Only the members of \<^verbatim>\<open>EnumSize\<close> and
  \<^verbatim>\<open>EnumVariant\<close> that the component names are declared. The click handler stops the
  propagation of the event, which touches nothing of the world, and calls \<^verbatim>\<open>cancel\<close>.
\<close>

datatype EnumSize = sm

datatype EnumVariant = Danger

record ButtonProps =
  size :: EnumSize
  variant :: EnumVariant
  className :: string
  onClick :: "world \<Rightarrow> world"
  children :: string

text \<open>
  The element tree that the function given to \<^verbatim>\<open>Popover\<close> returns: the trigger with its
  class and its child, the tasks handed to \<^verbatim>\<open>TasksOverview\<close> with the children function,
  and the Cancel button when there is one. Opening and closing the panel is the
  popover's business.
\<close>

record ('task, 'm) view =
  triggerClassName :: string
  triggerLabel :: nat
  overviewTasks :: "'task list"
  overviewChildren :: "'m overview \<Rightarrow> SummaryProps \<times> 'm DetailsProps"
  cancelButton :: "ButtonProps option"

text \<open>
  \<^verbatim>\<open>ActivePlan\<close>: the props of every element are computed when the function runs, so
  \<^verbatim>\<open>plan.tasks\<close> on line 67 is read on every render, whether the panel is open or not.
  With an absent plan that read raises, after the trigger's child on line 54 has been
  computed, and the error is the result of the render: the \<open>None\<close> case. \<open>environment_name\<close> is
  \<^verbatim>\<open>environment.name\<close> from the context store, \<open>s\<close> the plan store.
\<close>

definition ActivePlan ::
  "string \<Rightarrow> plan_store \<Rightarrow> 'task PlanProgress option \<Rightarrow> js_error + ('task, 'm) view"
where
  "ActivePlan environment_name s plan =
     (case plan of
        None \<Rightarrow> Inl TypeError
      | Some p \<Rightarrow>
          Inr \<lparr>triggerClassName =
                 clsx [''inline-block ml-1 px-2 py-[3px] rounded-[4px] text-xs font-bold'',
                       getTriggerBgColor (state s)],
               triggerLabel = trigger_count plan,
               overviewTasks = tasks p,
               overviewChildren = overview_children environment_name (state s) p,
               cancelButton =
                 (if state s = Applying
                  then Some \<lparr>size = sm, variant = Danger, className = ''mx-0'',
                             onClick = cancel, children = ''Cancel''\<rparr>
                  else None)\<rparr>)"


section \<open>What the handlers compute\<close>

lemmas store_ops =
  setPlanState_def setPlanAction_def apiCancelPlanApply_def setState_def setAction_def

lemma run_last_point: "run b w = last (w # points b w)"
  by (induction b arbitrary: w) simp_all

lemma settle_last_point: "settle r w = last (w # settle_points r w)"
  by (cases r)
    (simp_all add: settle_def settle_points_def on_settled_def finally_callback_def
      finally_body_def console_error_def)

lemma cancel_world:
  "cancel w =
     w\<lparr>store := \<lparr>state = Cancelling, action = ActionCancelling\<rparr>,
       requests := requests w + 1, pending := pending w + 1\<rparr>"
  by (simp add: cancel_def cancel_body_def store_ops)

lemma cancel_fields:
  "store (cancel w) = \<lparr>state = Cancelling, action = ActionCancelling\<rparr>"
  "console (cancel w) = console w"
  "requests (cancel w) = requests w + 1"
  "pending (cancel w) = pending w + 1"
  by (simp_all add: cancel_world)

lemma cancel_points_stores:
  "map store (points cancel_body w) =
     [\<lparr>state = Cancelling, action = action (store w)\<rparr>,
      \<lparr>state = Cancelling, action = ActionCancelling\<rparr>,
      \<lparr>state = Cancelling, action = ActionCancelling\<rparr>]"
  by (simp add: cancel_body_def store_ops)

lemma finally_callback_world:
  "finally_callback w = (Normal, w\<lparr>store := \<lparr>state = Cancelled, action = ActionNone\<rparr>\<rparr>)"
  by (simp add: finally_callback_def finally_body_def store_ops)

lemma on_settled_world:
  "on_settled r w =
     (Resolved,
      w\<lparr>store := \<lparr>state = Cancelled, action = ActionNone\<rparr>,
        console := (case r of Resolved \<Rightarrow> console w | Rejected e \<Rightarrow> console w @ [e])\<rparr>)"
  by (cases r) (simp_all add: on_settled_def finally_callback_world console_error_def)

lemma settle_cancel_world:
  "settle r (cancel w) =
     w\<lparr>store := \<lparr>state = Cancelled, action = ActionNone\<rparr>,
       console := (case r of Resolved \<Rightarrow> console w | Rejected e \<Rightarrow> console w @ [e]),
       requests := requests w + 1\<rparr>"
  by (cases r) (simp_all add: settle_def on_settled_world cancel_world)

lemma store_settle_cancel:
  "store (settle r (cancel w)) = \<lparr>state = Cancelled, action = ActionNone\<rparr>"
  by (simp add: settle_cancel_world)


section \<open>What the component renders\<close>

lemma ActivePlan_present:
  "ActivePlan env s (Some p) =
     Inr \<lparr>triggerClassName =
            clsx [''inline-block ml-1 px-2 py-[3px] rounded-[4px] text-xs font-bold'',
                  getTriggerBgColor (state s)],
          triggerLabel = 1,
          overviewTasks = tasks p,
          overviewChildren = overview_children env (state s) p,
          cancelButton =
            (if state s = Applying
             then Some \<lparr>size = sm, variant = Danger, className = ''mx-0'',
                        onClick = cancel, children = ''Cancel''\<rparr>
             else None)\<rparr>"
  by (simp add: ActivePlan_def trigger_count_def)

lemma ActivePlan_absent: "ActivePlan env s None = Inl TypeError"
  by (simp add: ActivePlan_def)


section \<open>The action flag never runs ahead of the state\<close>

lemma cancel_points_state:
  "w' \<in> set (points cancel_body w) \<Longrightarrow> state (store w') = Cancelling"
  by (auto simp add: cancel_body_def store_ops)

lemma cancel_points_in_sync: "w' \<in> set (points cancel_body w) \<Longrightarrow> in_sync w'"
  by (simp add: cancel_points_state in_sync_def)

lemma in_sync_cancel: "in_sync (cancel w)"
  by (simp add: cancel_fields in_sync_def)

lemma settle_points_in_sync:
  "in_sync w \<Longrightarrow> w' \<in> set (settle_points r w) \<Longrightarrow> in_sync w'"
  by (cases r)
    (auto simp add: settle_points_def finally_body_def store_ops console_error_def
      in_sync_def split: if_splits)

lemma in_sync_settle: "in_sync w \<Longrightarrow> in_sync (settle r w)"
  by (simp add: settle_def on_settled_world in_sync_def)

lemma produced_in_sync:
  "in_sync w \<Longrightarrow> w' \<in> set (produced es w) \<Longrightarrow> in_sync w'"
proof (induction es arbitrary: w)
  case Nil
  then show ?case by simp
next
  case (Cons e es)
  show ?case
  proof (cases e)
    case CancelCalled
    with Cons.prems Cons.IH [OF in_sync_cancel, of w] show ?thesis
      by (auto dest: cancel_points_in_sync)
  next
    case (Settled r)
    with Cons.prems Cons.IH [OF in_sync_settle [OF Cons.prems(1)], of r] show ?thesis
      by (auto dest: settle_points_in_sync)
  qed
qed


section \<open>The claims\<close>

text \<open>
  Claim C1. However the cancellation request settles after \<^verbatim>\<open>cancel\<close> was called, by
  resolving or by rejecting, the store ends with the state \<open>Cancelled\<close> and the action
  \<open>None\<close>, and the store after a rejection is the store after a resolution. The
  continuation leaves that store from whatever world it starts in, so nothing that
  happens while the request is in flight changes the outcome.
\<close>

theorem settled_store_is_cancelled:
  "store (settle r (cancel w)) = \<lparr>state = Cancelled, action = ActionNone\<rparr> \<and>
   store (settle (Rejected e) (cancel w)) = store (settle Resolved (cancel w)) \<and>
   store (snd (on_settled r w')) = \<lparr>state = Cancelled, action = ActionNone\<rparr>"
  by (simp add: store_settle_cancel on_settled_world)

text \<open>
  Claim C2, as the code has it. The plan prop is required: for every present plan,
  whatever its tasks, the render succeeds, the trigger shows 1 and \<^verbatim>\<open>TasksOverview\<close> is
  handed the plan's tasks. For an absent plan the count expression of the trigger
  yields 0, but the render does not succeed: reading \<^verbatim>\<open>plan.tasks\<close> raises a
  \<^verbatim>\<open>TypeError\<close>, and \<^verbatim>\<open>TasksOverview\<close> is handed nothing.
\<close>

theorem render_needs_present_plan:
  "trigger_count (None :: 'task PlanProgress option) = 0 \<and>
   ActivePlan env s (None :: 'task PlanProgress option) =
     (Inl TypeError :: js_error + ('task, 'm) view) \<and>
   (\<exists>v :: ('task, 'm) view.
      ActivePlan env s (Some p) = Inr v \<and> triggerLabel v = 1 \<and> overviewTasks v = tasks p)"
  by (simp add: ActivePlan_present ActivePlan_absent trigger_count_def)

text \<open>
  Claim C2 as stated fails: with the plan absent and the store idle, the render yields
  no view at all.
\<close>

theorem absent_plan_render_fails:
  "\<not> (\<exists>v :: (nat, unit) view.
        ActivePlan ''prod'' \<lparr>state = Idle, action = ActionNone\<rparr>
          (None :: nat PlanProgress option) = Inr v)"
  by (simp add: ActivePlan_absent)

text \<open>
  Claim C3. \<^verbatim>\<open>getTriggerBgColor\<close> is a function of the plan state alone (as every
  function of the logic, it is total and deterministic): the success token for
  \<open>Finished\<close>, the danger token for \<open>Failed\<close>, the in-progress token for \<open>Applying\<close>,
  these three pairwise distinct, and the one neutral token for \<open>Idle\<close>, \<open>Cancelling\<close>,
  \<open>Cancelled\<close> and every unknown value.
\<close>

theorem getTriggerBgColor_mapping:
  "getTriggerBgColor Finished = ''bg-success-500 text-light'' \<and>
   getTriggerBgColor Failed = ''bg-danger-500 text-light'' \<and>
   getTriggerBgColor Applying = ''bg-secondary-500 text-light'' \<and>
   distinct [getTriggerBgColor Finished, getTriggerBgColor Failed, getTriggerBgColor Applying] \<and>
   getTriggerBgColor Idle = ''bg-neutral-100 text-neutral-500'' \<and>
   getTriggerBgColor Cancelling = ''bg-neutral-100 text-neutral-500'' \<and>
   getTriggerBgColor Cancelled = ''bg-neutral-100 text-neutral-500'' \<and>
   getTriggerBgColor (Unknown u) = ''bg-neutral-100 text-neutral-500''"
  by (simp add: getTriggerBgColor_def)

text \<open>
  Claim C4. With the state \<open>Applying\<close>, the synchronous part of \<^verbatim>\<open>cancel\<close> leaves the
  store with the state \<open>Cancelling\<close> and the action \<open>Cancelling\<close> while the request it
  sent is still in flight; nothing is logged. The stores after its three statements
  show that both writes precede the request.
\<close>

theorem cancel_is_optimistic:
  "state (store w) = Applying \<Longrightarrow>
     store (cancel w) = \<lparr>state = Cancelling, action = ActionCancelling\<rparr> \<and>
     pending (cancel w) = pending w + 1 \<and>
     console (cancel w) = console w \<and>
     map store (points cancel_body w) =
       [\<lparr>state = Cancelling, action = action (store w)\<rparr>,
        \<lparr>state = Cancelling, action = ActionCancelling\<rparr>,
        \<lparr>state = Cancelling, action = ActionCancelling\<rparr>]"
  by (simp add: cancel_fields cancel_points_stores)

theorem cancel_is_optimistic_witness:
  "state (store \<lparr>store = \<lparr>state = Applying, action = ActionNone\<rparr>, console = [],
       requests = 0, pending = 0\<rparr>) = Applying \<and>
   store (cancel \<lparr>store = \<lparr>state = Applying, action = ActionNone\<rparr>, console = [],
       requests = 0, pending = 0\<rparr>) = \<lparr>state = Cancelling, action = ActionCancelling\<rparr> \<and>
   pending (cancel \<lparr>store = \<lparr>state = Applying, action = ActionNone\<rparr>, console = [],
       requests = 0, pending = 0\<rparr>) = 1"
  using cancel_is_optimistic [of "\<lparr>store = \<lparr>state = Applying, action = ActionNone\<rparr>, console = [],
       requests = 0, pending = 0\<rparr>"]
  by simp

text \<open>
  Claim C5. When the request rejects with \<open>e\<close>, the continuation logs \<open>e\<close> to the
  console and the promise at the end of the chain is resolved, so no rejection escapes.
  No request is sent by the continuation: after \<^verbatim>\<open>cancel\<close> and the rejection exactly
  one request has been sent and none is in flight. What the component renders after
  the rejection is what it renders after a resolution, so the user sees nothing of the
  error.
\<close>

theorem rejection_is_logged_and_absorbed:
  "fst (on_settled (Rejected e) w) = Resolved \<and>
   console (snd (on_settled (Rejected e) w)) = console w @ [e] \<and>
   requests (snd (on_settled (Rejected e) w)) = requests w \<and>
   pending (snd (on_settled (Rejected e) w)) = pending w \<and>
   console (settle (Rejected e) (cancel w)) = console w @ [e] \<and>
   requests (settle (Rejected e) (cancel w)) = requests w + 1 \<and>
   pending (settle (Rejected e) (cancel w)) = pending w \<and>
   ActivePlan env (store (settle (Rejected e) (cancel w))) plan =
     ActivePlan env (store (settle Resolved (cancel w))) plan"
  by (simp add: settle_cancel_world on_settled_world)

text \<open>
  Claim C6. For every state of the store, the view of a present plan holds the Cancel
  button if and only if the state is \<open>Applying\<close>.
\<close>

theorem cancel_button_iff_applying:
  "\<exists>v. ActivePlan env s (Some p) = Inr v \<and>
       (cancelButton v \<noteq> None) = (state s = Applying)"
  by (simp add: ActivePlan_present)

text \<open>
  Claim C7. At every point of the synchronous part of \<^verbatim>\<open>cancel\<close>, from any world, the
  state is already \<open>Cancelling\<close>, so the action flag is never \<open>Cancelling\<close> ahead of the
  state, before or after the request is sent. And from a world where the flag is not
  ahead of the state, every world that the component's statements produce, along any
  sequence of calls of \<^verbatim>\<open>cancel\<close> and settlements, keeps it so.
\<close>

theorem action_never_ahead_of_state:
  "(\<forall>w' \<in> set (points cancel_body w). state (store w') = Cancelling \<and> in_sync w') \<and>
   (in_sync w \<longrightarrow> (\<forall>w' \<in> set (produced es w). in_sync w'))"
  using cancel_points_state cancel_points_in_sync produced_in_sync by blast

theorem action_never_ahead_of_state_witness:
  "in_sync \<lparr>store = \<lparr>state = Applying, action = ActionNone\<rparr>, console = [],
       requests = 0, pending = 0\<rparr> \<and>
   list_all in_sync (points cancel_body \<lparr>store = \<lparr>state = Applying, action = ActionNone\<rparr>, console = [],
       requests = 0, pending = 0\<rparr>) \<and>
   list_all in_sync
     (produced [CancelCalled, Settled (Rejected ''timeout''), CancelCalled, Settled Resolved]
        \<lparr>store = \<lparr>state = Applying, action = ActionNone\<rparr>, console = [],
       requests = 0, pending = 0\<rparr>)"
proof -
  have start: "in_sync \<lparr>store = \<lparr>state = Applying, action = ActionNone\<rparr>, console = [],
       requests = 0, pending = 0\<rparr>"
    by (simp add: in_sync_def)
  from start
    action_never_ahead_of_state
      [of "\<lparr>store = \<lparr>state = Applying, action = ActionNone\<rparr>, console = [],
       requests = 0, pending = 0\<rparr>"
          "[CancelCalled, Settled (Rejected ''timeout''), CancelCalled, Settled Resolved]"]
  show ?thesis
    by (simp only: list_all_iff) blast
qed

text \<open>
  Claim C8. For every present plan and whatever \<^verbatim>\<open>TasksOverview\<close> hands to the children
  function, the details show the batches exactly when the plan's type is not \<open>Virtual\<close>
  and the virtual update exactly when it is, so exactly one of the two; the update type
  of the summary is \<open>Virtual\<close> for a virtual plan and \<open>Backfill\<close> otherwise.
\<close>

theorem details_follow_plan_type:
  "\<exists>v. ActivePlan env s (Some p) = Inr v \<and>
     (\<forall>ov. showBatches (snd (overviewChildren v ov)) = (type p \<noteq> Virtual) \<and>
           showVirtualUpdate (snd (overviewChildren v ov)) = (type p = Virtual) \<and>
           showBatches (snd (overviewChildren v ov)) \<noteq>
             showVirtualUpdate (snd (overviewChildren v ov)) \<and>
           updateType (fst (overviewChildren v ov)) =
             (if type p = Virtual then ''Virtual'' else ''Backfill''))"
  by (simp add: ActivePlan_present overview_children_def)

text \<open>
  Claim C9, as the code has it. The count expression of the trigger is a presence flag:
  0 for an absent plan, 1 for a present plan whatever its tasks; and for every present
  plan, whatever its tasks, the rendered trigger shows 1.
\<close>

theorem trigger_count_is_presence_flag:
  "trigger_count (None :: 'task PlanProgress option) = 0 \<and>
   trigger_count (Some p) = 1 \<and>
   trigger_count (Some (p\<lparr>tasks := ts\<rparr>)) = 1 \<and>
   (\<exists>v :: ('task, 'm) view.
      ActivePlan env s (Some (p\<lparr>tasks := ts\<rparr>)) = Inr v \<and> triggerLabel v = 1)"
  by (simp add: ActivePlan_present trigger_count_def)

text \<open>
  Claim C9 as stated fails: with the plan absent no render yields a trigger that
  shows 0.
\<close>

theorem absent_plan_shows_no_zero:
  "\<not> (\<exists>v :: (nat, unit) view.
        ActivePlan ''prod'' \<lparr>state = Applying, action = ActionNone\<rparr>
          (None :: nat PlanProgress option) = Inr v \<and>
        triggerLabel v = 0)"
  by (simp add: ActivePlan_absent)

text \<open>
  Claim C10. \<^verbatim>\<open>cancel\<close> tests nothing: from every world it writes the state
  \<open>Cancelling\<close>, then the action \<open>Cancelling\<close>, then sends one request, and the settlement
  leaves the state \<open>Cancelled\<close> and the action \<open>None\<close>. The restriction to \<open>Applying\<close> is
  in the view alone: a button whose click handler is \<^verbatim>\<open>cancel\<close> is rendered if and only
  if the state is \<open>Applying\<close>.
\<close>

theorem cancel_tests_nothing:
  "store (cancel w) = \<lparr>state = Cancelling, action = ActionCancelling\<rparr> \<and>
   requests (cancel w) = requests w + 1 \<and>
   pending (cancel w) = pending w + 1 \<and>
   map store (points cancel_body w) =
     [\<lparr>state = Cancelling, action = action (store w)\<rparr>,
      \<lparr>state = Cancelling, action = ActionCancelling\<rparr>,
      \<lparr>state = Cancelling, action = ActionCancelling\<rparr>] \<and>
   store (settle r (cancel w)) = \<lparr>state = Cancelled, action = ActionNone\<rparr> \<and>
   (\<exists>v. ActivePlan env s (Some p) = Inr v \<and>
        (\<exists>b. cancelButton v = Some b \<and> onClick b = cancel) = (state s = Applying))"
  by (simp add: cancel_fields cancel_points_stores store_settle_cancel ActivePlan_present)

end
